theory Spec2Isabelle
  imports Main "HOL-Library.Word"
begin

unbundle bit_operations_syntax

section \<open>GAW_MR_defines.h: the constants\<close>

text \<open>
  The macros of \<^verbatim>\<open>GAW_MR_defines.h\<close> are untyped integer literals; they are kept as
  integers here and converted to the width of the field they initialise, as C does.
\<close>

definition ROWS :: nat where "ROWS = 8"
definition COLS :: nat where "COLS = 8"

definition POWEROFF :: int where "POWEROFF = 0"
definition POWERON :: int where "POWERON = 1"

definition STRAIGHT :: int where "STRAIGHT = 0"
definition THROWN :: int where "THROWN = 1"

definition FORWARD :: int where "FORWARD = 1"
definition STOP :: int where "STOP = 0"
definition REVERSE :: int where "REVERSE = - 1"

definition TYPE_SWITCH :: int where "TYPE_SWITCH = 0"
definition TYPE_LOCO :: int where "TYPE_LOCO = 1"
definition TYPE_FUNCTION :: int where "TYPE_FUNCTION = 90"
definition TYPE_POWER :: int where "TYPE_POWER = 99"

definition NO_MODULE :: int where "NO_MODULE = 0"
definition MODULE_NWW :: int where "MODULE_NWW = 1"
definition MODULE_NW :: int where "MODULE_NW = 2"
definition MODULE_NE :: int where "MODULE_NE = 3"
definition MODULE_NEE :: int where "MODULE_NEE = 4"
definition MODULE_SWW :: int where "MODULE_SWW = 5"
definition MODULE_SW :: int where "MODULE_SW = 6"
definition MODULE_SE :: int where "MODULE_SE = 7"
definition MODULE_SEE :: int where "MODULE_SEE = 8"

definition FUNC_STORE :: int where "FUNC_STORE = 9001"
definition FUNC_RECALL :: int where "FUNC_RECALL = 9002"
definition FUNC_ACTIVATE :: int where "FUNC_ACTIVATE = 9003"
definition FUNC_SHOW :: int where "FUNC_SHOW = 9004"

definition FUNC_FORWARD :: int where "FUNC_FORWARD = 9101"
definition FUNC_STOP :: int where "FUNC_STOP = 9102"
definition FUNC_REVERSE :: int where "FUNC_REVERSE = 9103"
definition FUNC_LIGHTS :: int where "FUNC_LIGHTS = 9104"
definition FUNC_SOUND :: int where "FUNC_SOUND = 9105"
definition FUNC_WHISTLE :: int where "FUNC_WHISTLE = 9106"
definition FUNC_HORN :: int where "FUNC_HORN = 9107"
definition FUNC_TWOTONE :: int where "FUNC_TWOTONE = 9108"

definition FUNC_POWER :: int where "FUNC_POWER = 9999"

section \<open>GAW_MR_layout.h: the element structure and the element array\<close>

text \<open>
  \<^verbatim>\<open>struct MR_data { int type; int module; uint16_t address; byte state; int state2; }\<close>.
  The sketch is written for an AVR board (key-matrix pins 22..37, power LED on pin 53,
  on-chip EEPROM), where \<^verbatim>\<open>int\<close> is 16 bits wide and \<^verbatim>\<open>byte\<close> is an unsigned
  8-bit value. A signed field is read with \<^const>\<open>sint\<close>, an unsigned one with
  \<^const>\<open>uint\<close>.
\<close>

record MR_data =
  type :: "16 word"
  module :: "16 word"
  address :: "16 word"
  state :: "8 word"
  state2 :: "16 word"

text \<open>
  One row of the aggregate initialiser: five integer constants, each converted to the
  type of the member it initialises.
\<close>

definition entry :: "int \<Rightarrow> int \<Rightarrow> int \<Rightarrow> int \<Rightarrow> int \<Rightarrow> MR_data" where
  "entry t m a s s2 =
     \<lparr>type = of_int t, module = of_int m, address = of_int a,
      state = of_int s, state2 = of_int s2\<rparr>"

definition element :: "MR_data list" where
  "element = [
     entry TYPE_SWITCH MODULE_NWW 101 STRAIGHT 0,
     entry TYPE_SWITCH MODULE_NWW 102 STRAIGHT 0,
     entry TYPE_SWITCH MODULE_NWW 103 STRAIGHT 0,
     entry TYPE_SWITCH MODULE_NWW 104 STRAIGHT 0,

     entry TYPE_SWITCH MODULE_NW 201 STRAIGHT 0,
     entry TYPE_SWITCH MODULE_NW 202 STRAIGHT 0,
     entry TYPE_SWITCH MODULE_NW 203 STRAIGHT 0,

     entry TYPE_SWITCH MODULE_NEE 401 STRAIGHT 0,
     entry TYPE_SWITCH MODULE_NEE 402 STRAIGHT 0,
     entry TYPE_SWITCH MODULE_NEE 403 STRAIGHT 0,
     entry TYPE_SWITCH MODULE_NEE 404 STRAIGHT 0,
     entry TYPE_SWITCH MODULE_NEE 405 STRAIGHT 0,
     entry TYPE_SWITCH MODULE_NEE 406 STRAIGHT 0,
     entry TYPE_SWITCH MODULE_NEE 407 STRAIGHT 0,

     entry TYPE_SWITCH MODULE_SWW 501 STRAIGHT 0,
     entry TYPE_SWITCH MODULE_SWW 502 STRAIGHT 0,

     entry TYPE_SWITCH MODULE_SW 601 STRAIGHT 0,
     entry TYPE_SWITCH MODULE_SW 602 STRAIGHT 0,
     entry TYPE_SWITCH MODULE_SW 603 STRAIGHT 0,

     entry TYPE_SWITCH MODULE_SE 701 STRAIGHT 0,

     entry TYPE_SWITCH MODULE_SEE 801 STRAIGHT 0,
     entry TYPE_SWITCH MODULE_SEE 802 STRAIGHT 0,
     entry TYPE_SWITCH MODULE_SEE 803 STRAIGHT 0,
     entry TYPE_SWITCH MODULE_SEE 804 STRAIGHT 0,
     entry TYPE_SWITCH MODULE_SEE 805 STRAIGHT 0,

     entry TYPE_SWITCH NO_MODULE 0 0 0,
     entry TYPE_SWITCH NO_MODULE 0 0 0,
     entry TYPE_SWITCH NO_MODULE 0 0 0,
     entry TYPE_SWITCH NO_MODULE 0 0 0,
     entry TYPE_SWITCH NO_MODULE 0 0 0,
     entry TYPE_SWITCH NO_MODULE 0 0 0,
     entry TYPE_SWITCH NO_MODULE 0 0 0,

     entry TYPE_LOCO NO_MODULE 344 1 0,
     entry TYPE_LOCO NO_MODULE 386 1 0,
     entry TYPE_LOCO NO_MODULE 611 1 0,
     entry TYPE_LOCO NO_MODULE 612 1 0,
     entry TYPE_LOCO NO_MODULE 2412 1 0,

     entry TYPE_FUNCTION NO_MODULE FUNC_STORE 0 0,
     entry TYPE_FUNCTION NO_MODULE FUNC_RECALL 0 0,
     entry TYPE_FUNCTION NO_MODULE FUNC_ACTIVATE 0 0,
     entry TYPE_FUNCTION NO_MODULE FUNC_SHOW 0 0,

     entry TYPE_FUNCTION NO_MODULE FUNC_FORWARD 0 0,
     entry TYPE_FUNCTION NO_MODULE FUNC_STOP 0 0,
     entry TYPE_FUNCTION NO_MODULE FUNC_REVERSE 0 0,
     entry TYPE_FUNCTION NO_MODULE FUNC_LIGHTS 0 0,
     entry TYPE_FUNCTION NO_MODULE FUNC_SOUND 0 0,
     entry TYPE_FUNCTION NO_MODULE FUNC_WHISTLE 0 0,
     entry TYPE_FUNCTION NO_MODULE FUNC_HORN 0 0,
     entry TYPE_FUNCTION NO_MODULE FUNC_TWOTONE 0 0,

     entry TYPE_POWER NO_MODULE FUNC_POWER POWERON 0
   ]"

text \<open>\<^verbatim>\<open>#define nElements sizeof(element) / entrySize\<close>\<close>

definition nElements :: nat where
  "nElements = length element"

section \<open>GAW_MR.h: the single-header version of the same declarations\<close>

text \<open>
  \<^verbatim>\<open>GAW_MR.h\<close> (program version 0.8) declares the structure with five \<^verbatim>\<open>int\<close>
  members, has its own copy of the constants (with \<^verbatim>\<open>UNUSED\<close> and
  \<^verbatim>\<open>TYPE_LOCOMOTIVE\<close> in addition) and its own initialiser of \<^verbatim>\<open>element[]\<close>.
  Its names carry a prime here.
\<close>

definition UNUSED :: int where "UNUSED = - 1"
definition TYPE_LOCOMOTIVE :: int where "TYPE_LOCOMOTIVE = 1"

record MR_data' =
  type' :: "16 word"
  module' :: "16 word"
  address' :: "16 word"
  state' :: "16 word"
  state2' :: "16 word"

definition entry' :: "int \<Rightarrow> int \<Rightarrow> int \<Rightarrow> int \<Rightarrow> int \<Rightarrow> MR_data'" where
  "entry' t m a s s2 =
     \<lparr>type' = of_int t, module' = of_int m, address' = of_int a,
      state' = of_int s, state2' = of_int s2\<rparr>"

definition element' :: "MR_data' list" where
  "element' = [
     entry' TYPE_SWITCH 1 101 STRAIGHT THROWN,
     entry' TYPE_SWITCH 1 102 STRAIGHT THROWN,
     entry' TYPE_SWITCH 1 103 STRAIGHT THROWN,
     entry' TYPE_SWITCH 1 104 STRAIGHT THROWN,

     entry' TYPE_SWITCH 2 201 STRAIGHT THROWN,
     entry' TYPE_SWITCH 2 202 STRAIGHT THROWN,
     entry' TYPE_SWITCH 2 203 STRAIGHT THROWN,

     entry' TYPE_SWITCH 4 401 STRAIGHT THROWN,
     entry' TYPE_SWITCH 4 402 STRAIGHT THROWN,
     entry' TYPE_SWITCH 4 403 STRAIGHT THROWN,
     entry' TYPE_SWITCH 4 404 STRAIGHT THROWN,
     entry' TYPE_SWITCH 4 405 STRAIGHT THROWN,
     entry' TYPE_SWITCH 4 406 STRAIGHT THROWN,
     entry' TYPE_SWITCH 4 407 STRAIGHT THROWN,

     entry' TYPE_SWITCH 5 501 STRAIGHT THROWN,
     entry' TYPE_SWITCH 5 502 STRAIGHT THROWN,

     entry' TYPE_SWITCH 6 601 STRAIGHT THROWN,
     entry' TYPE_SWITCH 6 602 STRAIGHT THROWN,
     entry' TYPE_SWITCH 6 603 STRAIGHT THROWN,

     entry' TYPE_SWITCH 7 701 STRAIGHT THROWN,

     entry' TYPE_SWITCH 8 801 STRAIGHT THROWN,
     entry' TYPE_SWITCH 8 802 STRAIGHT THROWN,
     entry' TYPE_SWITCH 8 803 STRAIGHT THROWN,
     entry' TYPE_SWITCH 8 804 STRAIGHT THROWN,
     entry' TYPE_SWITCH 8 805 STRAIGHT THROWN,

     entry' TYPE_SWITCH 0 0 STRAIGHT THROWN,
     entry' TYPE_SWITCH 0 0 STRAIGHT THROWN,
     entry' TYPE_SWITCH 0 0 STRAIGHT THROWN,
     entry' TYPE_SWITCH 0 0 STRAIGHT THROWN,
     entry' TYPE_SWITCH 0 0 STRAIGHT THROWN,
     entry' TYPE_SWITCH 0 0 STRAIGHT THROWN,
     entry' TYPE_SWITCH 0 0 STRAIGHT THROWN,

     entry' TYPE_LOCOMOTIVE 0 344 FORWARD 0,
     entry' TYPE_LOCOMOTIVE 0 386 FORWARD 0,
     entry' TYPE_LOCOMOTIVE 0 611 FORWARD 0,
     entry' TYPE_LOCOMOTIVE 0 612 FORWARD 0,
     entry' TYPE_LOCOMOTIVE 0 2412 FORWARD 0,

     entry' TYPE_FUNCTION 0 9001 UNUSED UNUSED,
     entry' TYPE_FUNCTION 0 9002 UNUSED UNUSED,
     entry' TYPE_FUNCTION 0 9003 UNUSED UNUSED,

     entry' TYPE_FUNCTION 0 9101 UNUSED UNUSED,
     entry' TYPE_FUNCTION 0 9102 UNUSED UNUSED,
     entry' TYPE_FUNCTION 0 9103 UNUSED UNUSED,
     entry' TYPE_FUNCTION 0 9104 UNUSED UNUSED,
     entry' TYPE_FUNCTION 0 9105 UNUSED UNUSED,
     entry' TYPE_FUNCTION 0 9106 UNUSED UNUSED,
     entry' TYPE_FUNCTION 0 9107 UNUSED UNUSED,
     entry' TYPE_FUNCTION 0 9108 UNUSED UNUSED,

     entry' TYPE_POWER 0 9999 POWEROFF UNUSED
   ]"

definition nElements' :: nat where
  "nElements' = length element'"

section \<open>GAW_MR_controlpanel.h: the key matrix and the active locomotive\<close>

text \<open>
  \<^verbatim>\<open>char keys[ROWS][COLS]\<close>: the value the keypad returns for each row/column
  crossing; the header's comment calls the values pointers into the element array. The
  values are between 1 and 64, so the signedness of \<^verbatim>\<open>char\<close> does not matter; they
  are read with \<^const>\<open>unat\<close>.
\<close>

definition keys :: "8 word list list" where
  "keys = [
     [ 1,  2,  3,  4,  5,  6,  7,  8],
     [ 9, 10, 11, 12, 13, 14, 15, 16],
     [17, 18, 19, 20, 21, 22, 23, 24],
     [25, 26, 27, 28, 29, 30, 31, 32],
     [33, 34, 35, 36, 37, 38, 39, 40],
     [41, 42, 43, 44, 45, 46, 47, 48],
     [49, 50, 51, 52, 53, 54, 55, 56],
     [57, 58, 59, 60, 61, 62, 63, 64]
   ]"

text \<open>
  Reading \<^verbatim>\<open>keys[row][col]\<close>. C leaves a read outside the matrix undefined; here it
  has no value.
\<close>

definition key_at :: "nat \<Rightarrow> nat \<Rightarrow> 8 word option" where
  "key_at row col = (if row < ROWS \<and> col < COLS then Some (keys ! row ! col) else None)"

text \<open>
  The position of the element array a key value points to. The headers do not say
  whether the sketch counts the positions from 1 (position \<open>key - 1\<close>) or uses the value
  as it is; \<open>base\<close> is that origin, and a value that is no position of a table of \<open>n\<close>
  entries has none.
\<close>

definition element_index :: "nat \<Rightarrow> nat \<Rightarrow> 8 word \<Rightarrow> nat option" where
  "element_index base n key =
     (if base \<le> unat key \<and> unat key - base < n then Some (unat key - base) else None)"

text \<open>\<^verbatim>\<open>int activeLoc = 0;\<close>\<close>

definition activeLoc_init :: "16 word" where
  "activeLoc_init = 0"

section \<open>GAW_MR_multiplexer.h: the port expanders\<close>

text \<open>
  \<^verbatim>\<open>struct MCPINFO { Adafruit_MCP23X17 mcp; uint8_t address; }\<close>. The driver object
  has no state of interest before it is started; the I2C address is the datum.
\<close>

record MCPINFO =
  mcp_address :: "8 word"

definition mcps :: "MCPINFO list" where
  "mcps = [
     \<lparr>mcp_address = 0x20\<rparr>,
     \<lparr>mcp_address = 0x21\<rparr>,
     \<lparr>mcp_address = 0x22\<rparr>,
     \<lparr>mcp_address = 0x23\<rparr>,
     \<lparr>mcp_address = 0x24\<rparr>,
     \<lparr>mcp_address = 0x25\<rparr>,
     \<lparr>mcp_address = 0x26\<rparr>
   ]"

text \<open>\<^verbatim>\<open>#define numberOfMx sizeof(mcps) / sizeof(MCPINFO)\<close>\<close>

definition numberOfMx :: nat where
  "numberOfMx = length mcps"

section \<open>Reading the element array\<close>

text \<open>
  The kind of an entry is its \<^verbatim>\<open>type\<close> member compared with a \<^verbatim>\<open>TYPE_\<close> constant.
  A spare Switch position is a Switch entry with address 0 (the seven rows under the
  comment "7 spare switch positions, for possible future expansion").
\<close>

definition is_switch :: "MR_data \<Rightarrow> bool" where
  "is_switch e = (sint (type e) = TYPE_SWITCH)"

definition is_switch' :: "MR_data' \<Rightarrow> bool" where
  "is_switch' e = (sint (type' e) = TYPE_SWITCH)"

definition is_spare :: "MR_data \<Rightarrow> bool" where
  "is_spare e = (is_switch e \<and> uint (address e) = 0)"

definition is_spare' :: "MR_data' \<Rightarrow> bool" where
  "is_spare' e = (is_switch' e \<and> sint (address' e) = 0)"

text \<open>
  Writing a direction constant to the \<^verbatim>\<open>state\<close> member and reading it back. In
  \<^verbatim>\<open>GAW_MR_layout.h\<close> the member is a \<^verbatim>\<open>byte\<close>: the assignment converts the
  \<^verbatim>\<open>int\<close> modulo 256 and the read promotes the unsigned value. In \<^verbatim>\<open>GAW_MR.h\<close>
  the member is an \<^verbatim>\<open>int\<close>.
\<close>

definition set_state :: "MR_data \<Rightarrow> int \<Rightarrow> MR_data" where
  "set_state e v = e\<lparr>state := of_int v\<rparr>"

definition get_state :: "MR_data \<Rightarrow> int" where
  "get_state e = uint (state e)"

definition set_state' :: "MR_data' \<Rightarrow> int \<Rightarrow> MR_data'" where
  "set_state' e v = e\<lparr>state' := of_int v\<rparr>"

definition get_state' :: "MR_data' \<Rightarrow> int" where
  "get_state' e = sint (state' e)"

definition get_state2 :: "MR_data \<Rightarrow> int" where
  "get_state2 e = sint (state2 e)"

definition get_state2' :: "MR_data' \<Rightarrow> int" where
  "get_state2' e = sint (state2' e)"

text \<open>The members of an entry as integers, for comparing the two headers.\<close>

definition kind_address :: "MR_data \<Rightarrow> int \<times> int \<times> int" where
  "kind_address e = (sint (type e), sint (module e), uint (address e))"

definition kind_address' :: "MR_data' \<Rightarrow> int \<times> int \<times> int" where
  "kind_address' e = (sint (type' e), sint (module' e), sint (address' e))"

text \<open>
  The two states of a Switch entry are complementary when one is \<^verbatim>\<open>STRAIGHT\<close> and the
  other \<^verbatim>\<open>THROWN\<close>.
\<close>

definition complementary :: "int \<Rightarrow> int \<Rightarrow> bool" where
  "complementary s s2 = (s = STRAIGHT \<and> s2 = THROWN \<or> s = THROWN \<and> s2 = STRAIGHT)"

text \<open>
  The kind and address of the entry at a position, with the position itself added for
  an entry whose address is 0: two positions with the same tag are two entries of one
  kind that share a nonzero address.
\<close>

definition address_tag :: "nat \<times> MR_data \<Rightarrow> int \<times> int \<times> nat" where
  "address_tag p =
     (sint (type (snd p)), uint (address (snd p)),
      if uint (address (snd p)) = 0 then fst p else 0)"

definition address_tag' :: "nat \<times> MR_data' \<Rightarrow> int \<times> int \<times> nat" where
  "address_tag' p =
     (sint (type' (snd p)), sint (address' (snd p)),
      if sint (address' (snd p)) = 0 then fst p else 0)"

section \<open>The LED Mirror's addressing\<close>

text \<open>
  Modelled from the spec: the ordinal position of a Switch (glossary): its zero-based
  rank among the Switch entries, the number of Switch entries before position \<open>i\<close>.
\<close>

definition switch_rank :: "MR_data list \<Rightarrow> nat \<Rightarrow> nat" where
  "switch_rank tbl i = length (filter is_switch (take i tbl))"

text \<open>
  Modelled from the spec: the LED Mirror's addressing function (section 4.3); the
  headers declare \<^verbatim>\<open>mcps[]\<close> and describe the pairs in a comment, the function that
  computes chip and line is not among them. A Switch at ordinal position \<open>p\<close> belongs to
  pair \<open>p / 16\<close> and has bit offset \<open>p % 16\<close> in each chip of the pair. In
  \<^verbatim>\<open>mcps[]\<close> the pair \<open>k\<close> is the chips \<open>2 * k\<close> (Thrown, "the first ones") and
  \<open>2 * k + 1\<close> (Straight, "the second ones").
\<close>

definition led_pair :: "nat \<Rightarrow> nat" where
  "led_pair p = p div 16"

text \<open>
  Modelled from the spec: the bit offset within each chip of the pair, \<open>p % 16\<close>
  (section 4.3).
\<close>

definition led_bit :: "nat \<Rightarrow> nat" where
  "led_bit p = p mod 16"

text \<open>
  Modelled from the spec: the chip of \<^verbatim>\<open>mcps[]\<close> that carries the Thrown indicator of
  rank \<open>p\<close>: the first chip of the pair (section 4.3 and the comment of
  \<^verbatim>\<open>GAW_MR_multiplexer.h\<close>).
\<close>

definition thrown_chip :: "nat \<Rightarrow> nat" where
  "thrown_chip p = 2 * led_pair p"

text \<open>
  Modelled from the spec: the chip that carries the Straight indicator of rank \<open>p\<close>: the
  second chip of the pair.
\<close>

definition straight_chip :: "nat \<Rightarrow> nat" where
  "straight_chip p = 2 * led_pair p + 1"

text \<open>
  Modelled from the spec: driving one output line (section 4.3). The output lines are
  one 16-bit value for each chip of \<^verbatim>\<open>mcps[]\<close>; a write to a chip that is not there
  is dropped.
\<close>

definition drive_line :: "16 word list \<Rightarrow> nat \<Rightarrow> nat \<Rightarrow> bool \<Rightarrow> 16 word list" where
  "drive_line leds chip line on =
     (if chip < length leds
      then leds[chip := (if on then set_bit line (leds ! chip) else unset_bit line (leds ! chip))]
      else leds)"

text \<open>
  Modelled from the spec: the LED Mirror's write for a Switch of rank \<open>p\<close> (section
  4.3): it sets the line on one chip of the pair and clears it on the other.
\<close>

definition led_write :: "16 word list \<Rightarrow> nat \<Rightarrow> int \<Rightarrow> 16 word list" where
  "led_write leds p st =
     drive_line (drive_line leds (thrown_chip p) (led_bit p) (st = THROWN))
       (straight_chip p) (led_bit p) (st \<noteq> THROWN)"

section \<open>The Persistence Adapter\<close>

text \<open>
  Modelled from the spec: the error taxonomy of section 7 (the headers define no error
  values).
\<close>

datatype error =
    UnmappedKey
  | ReservedSlot
  | NoLocomotiveSelected
  | ChipUnavailable
  | SizeMismatch
  | StorageError

text \<open>
  Modelled from the spec: the stored record of one entry (section 4.4; the sketch's
  EEPROM routines are not among the headers): its mutable members in a fixed layout, the
  \<^verbatim>\<open>byte\<close> \<^verbatim>\<open>state\<close>, then the two bytes of the \<^verbatim>\<open>int\<close> \<^verbatim>\<open>state2\<close>, low byte
  first (the byte order of the AVR).
\<close>

definition entry_bytes :: "MR_data \<Rightarrow> 8 word list" where
  "entry_bytes e = [state e, ucast (state2 e), ucast (drop_bit 8 (state2 e))]"

text \<open>
  Modelled from the spec: \<open>save\<close> of section 4.4: the records of all entries, in table
  order.
\<close>

definition save :: "MR_data list \<Rightarrow> 8 word list" where
  "save tbl = concat (map entry_bytes tbl)"

text \<open>
  Modelled from the spec: the element count a stored region implies (section 4.4): the
  number of whole three-byte records in it.
\<close>

definition implied_count :: "8 word list \<Rightarrow> nat" where
  "implied_count region = length region div 3"

text \<open>
  Modelled from the spec: reading the records of a region back, in order (section 4.4);
  bytes after the last whole record are ignored.
\<close>

fun decode :: "8 word list \<Rightarrow> (8 word \<times> 16 word) list" where
  "decode (s # lo # hi # rest) = (s, push_bit 8 (ucast hi) OR ucast lo) # decode rest"
| "decode _ = []"

text \<open>
  Modelled from the spec: \<open>load\<close> of section 4.4: the stored states, or \<open>SizeMismatch\<close>
  when the implied element count is not the live table's length \<open>n\<close>.
\<close>

definition load :: "8 word list \<Rightarrow> nat \<Rightarrow> error + (8 word \<times> 16 word) list" where
  "load region n = (if implied_count region \<noteq> n then Inl SizeMismatch else Inr (decode region))"

text \<open>
  Modelled from the spec: applying a snapshot onto the in-memory table (section 4.4):
  only \<^verbatim>\<open>state\<close> and \<^verbatim>\<open>state2\<close> are replaced.
\<close>

definition restore :: "(8 word \<times> 16 word) list \<Rightarrow> MR_data list \<Rightarrow> MR_data list" where
  "restore snapshot tbl = map2 (\<lambda>(s, s2) e. e\<lparr>state := s, state2 := s2\<rparr>) snapshot tbl"

text \<open>
  Modelled from the spec: the read-then-replace of the Recall function (sections 4.2 and
  4.4): on an error the table stays as it is and the error is reported.
\<close>

definition recall :: "8 word list \<Rightarrow> MR_data list \<Rightarrow> MR_data list \<times> error option" where
  "recall region tbl =
     (case load region (length tbl) of
        Inl err \<Rightarrow> (tbl, Some err)
      | Inr snapshot \<Rightarrow> (restore snapshot tbl, None))"

section \<open>The Command Processor\<close>

text \<open>
  Modelled from the spec: the bus commands of section 6 (the LocoNet calls of the sketch
  are not among the headers): set-switch-state(address, state),
  locomotive-direction(address, direction), locomotive-speed(address, step),
  locomotive-function(address, function) and track-power(state).
\<close>

datatype bus_command =
    SetSwitchState "16 word" int
  | LocomotiveDirection "16 word" int
  | LocomotiveSpeed "16 word" int
  | LocomotiveFunction "16 word" int
  | TrackPower int

text \<open>
  Modelled from the spec: the state the Command Processor owns (sections 3 and 4.2): the
  Element Table, the Active Locomotive Selector (\<^verbatim>\<open>activeLoc\<close>, 0 when no locomotive
  is selected, as the header initialises it), the output lines of the port expanders,
  the power indicator and the stored byte region.
\<close>

record panel =
  table :: "MR_data list"
  activeLoc :: "16 word"
  leds :: "16 word list"
  power_led :: bool
  eeprom :: "8 word list"

text \<open>
  Modelled from the spec: the state at startup (section 3): the default table of
  \<^verbatim>\<open>GAW_MR_layout.h\<close>, no locomotive selected, all lines off, nothing stored.
\<close>

definition panel_init :: panel where
  "panel_init =
     \<lparr>table = element, activeLoc = activeLoc_init, leds = replicate numberOfMx 0,
      power_led = False, eeprom = []\<rparr>"

text \<open>
  Modelled from the spec: what a transition returns (section 4.2): the new state, the
  emitted bus commands and the reported error, if any.
\<close>

type_synonym outcome = "panel \<times> bus_command list \<times> error option"

text \<open>
  Modelled from the spec: the selected locomotive, if any (section 3: zero or one valid
  value at a time, "none selected" by default).
\<close>

definition selected :: "panel \<Rightarrow> nat option" where
  "selected p =
     (if activeLoc p = 0 \<or> \<not> unat (activeLoc p) < length (table p) then None
      else Some (unat (activeLoc p)))"

text \<open>
  Modelled from the spec: a press on a Switch (section 4.2). A spare position
  (address 0) changes nothing and reports \<open>ReservedSlot\<close>. Otherwise the press toggles
  \<^verbatim>\<open>state\<close> between \<^verbatim>\<open>STRAIGHT\<close> and \<^verbatim>\<open>THROWN\<close>, sets \<^verbatim>\<open>state2\<close> to the
  complement, drives both LED lines and emits set-switch-state.
\<close>

definition press_switch :: "panel \<Rightarrow> nat \<Rightarrow> outcome" where
  "press_switch p i =
     (let e = table p ! i in
      if uint (address e) = 0 then (p, [], Some ReservedSlot)
      else
        let new = (if get_state e = STRAIGHT then THROWN else STRAIGHT);
            opposite = (if new = STRAIGHT then THROWN else STRAIGHT);
            e' = e\<lparr>state := of_int new, state2 := of_int opposite\<rparr>
        in (p\<lparr>table := (table p)[i := e'],
               leds := led_write (leds p) (switch_rank (table p) i) new\<rparr>,
            [SetSwitchState (address e) new], None))"

text \<open>Modelled from the spec: a press on a Locomotive selects it (section 4.2).\<close>

definition press_locomotive :: "panel \<Rightarrow> nat \<Rightarrow> outcome" where
  "press_locomotive p i = (p\<lparr>activeLoc := of_nat i\<rparr>, [], None)"

text \<open>
  Modelled from the spec: Forward, Stop and Reverse (section 4.2) store the direction
  \<open>d\<close> in the selected locomotive's \<^verbatim>\<open>state\<close> and emit locomotive-direction. With no
  locomotive selected they report \<open>NoLocomotiveSelected\<close>, emit nothing and change
  nothing.
\<close>

definition direction_function :: "panel \<Rightarrow> int \<Rightarrow> outcome" where
  "direction_function p d =
     (case selected p of
        None \<Rightarrow> (p, [], Some NoLocomotiveSelected)
      | Some a \<Rightarrow>
          (p\<lparr>table := (table p)[a := set_state (table p ! a) d]\<rparr>,
           [LocomotiveDirection (address (table p ! a)) d], None))"

text \<open>
  Modelled from the spec: lights, sound, whistle, horn and two-tone horn (section 4.2)
  emit one locomotive-function command for the selected locomotive, with the same
  \<open>NoLocomotiveSelected\<close> policy.
\<close>

definition trigger_function :: "panel \<Rightarrow> int \<Rightarrow> outcome" where
  "trigger_function p f =
     (case selected p of
        None \<Rightarrow> (p, [], Some NoLocomotiveSelected)
      | Some a \<Rightarrow> (p, [LocomotiveFunction (address (table p ! a)) f], None))"

text \<open>
  Modelled from the spec: a speed change (section 4.2): the step, clamped to the bus's
  range \<open>0..max_step\<close> (a parameter: the spec does not give the range), is stored in the
  selected locomotive's \<^verbatim>\<open>state2\<close> and emitted as locomotive-speed.
\<close>

definition speed_input :: "int \<Rightarrow> panel \<Rightarrow> int \<Rightarrow> outcome" where
  "speed_input max_step p level =
     (case selected p of
        None \<Rightarrow> (p, [], Some NoLocomotiveSelected)
      | Some a \<Rightarrow>
          let step = max 0 (min max_step level) in
          (p\<lparr>table := (table p)[a := (table p ! a)\<lparr>state2 := of_int step\<rparr>]\<rparr>,
           [LocomotiveSpeed (address (table p ! a)) step], None))"

text \<open>
  Modelled from the spec: the bus commands of Activate (section 4.2): the state of every
  Switch that is in use and of every Power entry, sent again.
\<close>

definition activate_commands :: "MR_data list \<Rightarrow> bus_command list" where
  "activate_commands tbl =
     concat (map (\<lambda>e.
       if is_switch e then (if is_spare e then [] else [SetSwitchState (address e) (get_state e)])
       else if sint (type e) = TYPE_POWER then [TrackPower (get_state e)]
       else []) tbl)"

text \<open>
  Modelled from the spec: the panel-level functions (section 4.2). Store writes the
  table's states to the byte region; Recall reads them back onto the table; Activate
  sends the states again; Show only writes to the display.
\<close>

definition panel_function :: "panel \<Rightarrow> int \<Rightarrow> outcome" where
  "panel_function p f =
     (if f = FUNC_STORE then (p\<lparr>eeprom := save (table p)\<rparr>, [], None)
      else if f = FUNC_RECALL then
        (case recall (eeprom p) (table p) of (tbl, err) \<Rightarrow> (p\<lparr>table := tbl\<rparr>, [], err))
      else if f = FUNC_ACTIVATE then (p, activate_commands (table p), None)
      else (p, [], None))"

text \<open>
  Modelled from the spec: the function codes that act on the selected locomotive
  (section 4.2): direction, lights, sound, whistle, horn and two-tone horn.
\<close>

definition locomotive_scoped :: "int \<Rightarrow> bool" where
  "locomotive_scoped f =
     (f \<in> {FUNC_FORWARD, FUNC_STOP, FUNC_REVERSE, FUNC_LIGHTS, FUNC_SOUND,
            FUNC_WHISTLE, FUNC_HORN, FUNC_TWOTONE})"

text \<open>
  Modelled from the spec: a press on a Function entry is dispatched on the function code
  in its \<^verbatim>\<open>address\<close> (section 4.2).
\<close>

definition press_function :: "panel \<Rightarrow> int \<Rightarrow> outcome" where
  "press_function p f =
     (if f = FUNC_FORWARD then direction_function p FORWARD
      else if f = FUNC_STOP then direction_function p STOP
      else if f = FUNC_REVERSE then direction_function p REVERSE
      else if f \<in> {FUNC_LIGHTS, FUNC_SOUND, FUNC_WHISTLE, FUNC_HORN, FUNC_TWOTONE}
        then trigger_function p f
      else panel_function p f)"

text \<open>
  Modelled from the spec: a press on the Power entry toggles \<^verbatim>\<open>state\<close> between
  \<^verbatim>\<open>POWERON\<close> and \<^verbatim>\<open>POWEROFF\<close>, emits track-power and drives the power indicator
  (section 4.2).
\<close>

definition press_power :: "panel \<Rightarrow> nat \<Rightarrow> outcome" where
  "press_power p i =
     (let e = table p ! i;
          new = (if get_state e = POWERON then POWEROFF else POWERON)
      in (p\<lparr>table := (table p)[i := set_state e new], power_led := (new = POWERON)\<rparr>,
          [TrackPower new], None))"

text \<open>
  Modelled from the spec: the transition function \<open>apply(table, index, press)\<close> of
  section 4.2, by kind of the entry at the index. An index that is no position of the
  table changes nothing and reports \<open>UnmappedKey\<close>.
\<close>

definition apply_press :: "panel \<Rightarrow> nat \<Rightarrow> outcome" where
  "apply_press p i =
     (if \<not> i < length (table p) then (p, [], Some UnmappedKey)
      else
        let e = table p ! i; t = sint (type e) in
        if t = TYPE_SWITCH then press_switch p i
        else if t = TYPE_LOCO then press_locomotive p i
        else if t = TYPE_FUNCTION then press_function p (uint (address e))
        else if t = TYPE_POWER then press_power p i
        else (p, [], None))"

section \<open>Facts about the constants and the tables\<close>

lemmas defines_simps =
  ROWS_def COLS_def POWEROFF_def POWERON_def STRAIGHT_def THROWN_def
  FORWARD_def STOP_def REVERSE_def
  TYPE_SWITCH_def TYPE_LOCO_def TYPE_FUNCTION_def TYPE_POWER_def
  NO_MODULE_def MODULE_NWW_def MODULE_NW_def MODULE_NE_def MODULE_NEE_def
  MODULE_SWW_def MODULE_SW_def MODULE_SE_def MODULE_SEE_def
  FUNC_STORE_def FUNC_RECALL_def FUNC_ACTIVATE_def FUNC_SHOW_def
  FUNC_FORWARD_def FUNC_STOP_def FUNC_REVERSE_def FUNC_LIGHTS_def FUNC_SOUND_def
  FUNC_WHISTLE_def FUNC_HORN_def FUNC_TWOTONE_def FUNC_POWER_def
  UNUSED_def TYPE_LOCOMOTIVE_def

lemmas table_simps = element_def entry_def element'_def entry'_def

lemma length_element: "length element = 50"
  by (simp add: element_def)

lemma length_element': "length element' = 49"
  by (simp add: element'_def)

lemma nElements_eq: "nElements = 50"
  by (simp add: nElements_def length_element)

lemma nElements'_eq: "nElements' = 49"
  by (simp add: nElements'_def length_element')

text \<open>
  A list whose first \<open>n\<close> entries satisfy \<open>P\<close> and whose other entries do not: \<open>P\<close>
  holds at a position exactly when the position is below \<open>n\<close>.
\<close>

lemma prefix_split:
  assumes "list_all P (take n xs)" and "list_all (\<lambda>x. \<not> P x) (drop n xs)"
    and "n \<le> length xs"
  shows "\<forall>i<length xs. P (xs ! i) = (i < n)"
proof (intro allI impI)
  fix i assume i: "i < length xs"
  show "P (xs ! i) = (i < n)"
  proof (cases "i < n")
    case True
    with assms(1) i have "P (take n xs ! i)" by (simp add: list_all_length)
    with True show ?thesis by simp
  next
    case False
    then have "i - n < length (drop n xs)" using i by simp
    with assms(2) have "\<not> P (drop n xs ! (i - n))" by (simp add: list_all_length)
    with False i show ?thesis by simp
  qed
qed

lemma switch_rows: "list_all is_switch (take 32 element)"
  by (simp add: table_simps is_switch_def defines_simps)

lemma other_rows: "list_all (\<lambda>e. \<not> is_switch e) (drop 32 element)"
  by (simp add: table_simps is_switch_def defines_simps)

lemma switch_rows': "list_all is_switch' (take 32 element')"
  by (simp add: table_simps is_switch'_def defines_simps)

lemma other_rows': "list_all (\<lambda>e. \<not> is_switch' e) (drop 32 element')"
  by (simp add: table_simps is_switch'_def defines_simps)

lemma switch_iff: "\<forall>i<length element. is_switch (element ! i) = (i < 32)"
  by (rule prefix_split[OF switch_rows other_rows]) (simp add: length_element)

lemma switch_iff': "\<forall>i<length element'. is_switch' (element' ! i) = (i < 32)"
  by (rule prefix_split[OF switch_rows' other_rows']) (simp add: length_element')

section \<open>The Switch entries come first\<close>

text \<open>
  Claim C1. In the element array of \<^verbatim>\<open>GAW_MR_layout.h\<close> and in that of
  \<^verbatim>\<open>GAW_MR.h\<close>, an entry of type \<^verbatim>\<open>TYPE_SWITCH\<close> is preceded by Switch entries
  only; each array has at least 32 entries, its first 32 entries are Switches and no
  later entry is a Switch.
\<close>

theorem switches_first:
  "(\<forall>i<nElements. is_switch (element ! i) \<longrightarrow> (\<forall>j<i. is_switch (element ! j)))
   \<and> (\<forall>i<nElements'. is_switch' (element' ! i) \<longrightarrow> (\<forall>j<i. is_switch' (element' ! j)))
   \<and> 32 \<le> nElements \<and> (\<forall>i<nElements. is_switch (element ! i) = (i < 32))
   \<and> 32 \<le> nElements' \<and> (\<forall>i<nElements'. is_switch' (element' ! i) = (i < 32))"
  using switch_iff switch_iff'
  by (auto simp: nElements_def nElements'_def length_element length_element')

theorem switches_first_witness:
  "is_switch (element ! 31) \<and> \<not> is_switch (element ! 32) \<and> is_switch (element ! 30)
   \<and> is_switch' (element' ! 31) \<and> \<not> is_switch' (element' ! 32)"
  using switches_first
  by (simp add: nElements_def nElements'_def length_element length_element')

lemma distinct_tagged:
  assumes "distinct (map f (enumerate 0 xs))" and "i < length xs" and "j < length xs"
    and "i \<noteq> j"
  shows "f (i, xs ! i) \<noteq> f (j, xs ! j)"
proof -
  let ?ys = "map f (enumerate 0 xs)"
  have "?ys ! i = f (i, xs ! i)" "?ys ! j = f (j, xs ! j)"
    using assms(2,3) by (simp_all add: nth_enumerate_eq)
  moreover have "?ys ! i \<noteq> ?ys ! j"
    using nth_eq_iff_index_eq[OF assms(1), of i j] assms(2-4) by simp
  ultimately show ?thesis by simp
qed

lemma tags_distinct: "distinct (map address_tag (enumerate 0 element))"
  by (simp add: table_simps address_tag_def defines_simps enumerate_eq_zip upt_rec)

lemma tags_distinct': "distinct (map address_tag' (enumerate 0 element'))"
  by (simp add: table_simps address_tag'_def defines_simps enumerate_eq_zip upt_rec)

lemma spare_map:
  "map is_spare element = map (\<lambda>i. 25 \<le> i \<and> i < 32) [0..<50]"
  by (simp add: table_simps is_spare_def is_switch_def defines_simps upt_rec)

lemma spare_map':
  "map is_spare' element' = map (\<lambda>i. 25 \<le> i \<and> i < 32) [0..<49]"
  by (simp add: table_simps is_spare'_def is_switch'_def defines_simps upt_rec)

lemma spare_iff:
  assumes "i < 50"
  shows "is_spare (element ! i) = (25 \<le> i \<and> i < 32)"
proof -
  have "is_spare (element ! i) = map is_spare element ! i"
    using assms by (simp add: length_element)
  also have "\<dots> = (25 \<le> i \<and> i < 32)"
    using assms by (simp only: spare_map nth_map length_upt nth_upt) simp
  finally show ?thesis .
qed

lemma spare_iff':
  assumes "i < 49"
  shows "is_spare' (element' ! i) = (25 \<le> i \<and> i < 32)"
proof -
  have "is_spare' (element' ! i) = map is_spare' element' ! i"
    using assms by (simp add: length_element')
  also have "\<dots> = (25 \<le> i \<and> i < 32)"
    using assms by (simp only: spare_map' nth_map length_upt nth_upt) simp
  finally show ?thesis .
qed

section \<open>Addresses within a kind\<close>

text \<open>
  Claim C8, as amended. In both element arrays, two different entries of the same kind
  of which one has a nonzero address have different addresses. The Switch entries with
  address 0 are exactly the seven spare positions 25..31, which share the address 0.
\<close>

theorem addresses_unique_unless_spare:
  "(\<forall>i<nElements. \<forall>j<nElements.
      i \<noteq> j \<and> sint (type (element ! i)) = sint (type (element ! j))
        \<and> uint (address (element ! i)) \<noteq> 0
      \<longrightarrow> uint (address (element ! i)) \<noteq> uint (address (element ! j)))
   \<and> (\<forall>i<nElements'. \<forall>j<nElements'.
      i \<noteq> j \<and> sint (type' (element' ! i)) = sint (type' (element' ! j))
        \<and> sint (address' (element' ! i)) \<noteq> 0
      \<longrightarrow> sint (address' (element' ! i)) \<noteq> sint (address' (element' ! j)))
   \<and> (\<forall>i<nElements. (is_switch (element ! i) \<and> uint (address (element ! i)) = 0) = (25 \<le> i \<and> i < 32))
   \<and> (\<forall>i<nElements'. (is_switch' (element' ! i) \<and> sint (address' (element' ! i)) = 0) = (25 \<le> i \<and> i < 32))"
proof (intro conjI allI impI)
  fix i j
  assume i: "i < nElements" and j: "j < nElements"
    and h: "i \<noteq> j \<and> sint (type (element ! i)) = sint (type (element ! j))
        \<and> uint (address (element ! i)) \<noteq> 0"
  from distinct_tagged[OF tags_distinct, of i j] i j h
  have "address_tag (i, element ! i) \<noteq> address_tag (j, element ! j)"
    by (simp add: nElements_def)
  with h show "uint (address (element ! i)) \<noteq> uint (address (element ! j))"
    by (auto simp: address_tag_def)
next
  fix i j
  assume i: "i < nElements'" and j: "j < nElements'"
    and h: "i \<noteq> j \<and> sint (type' (element' ! i)) = sint (type' (element' ! j))
        \<and> sint (address' (element' ! i)) \<noteq> 0"
  from distinct_tagged[OF tags_distinct', of i j] i j h
  have "address_tag' (i, element' ! i) \<noteq> address_tag' (j, element' ! j)"
    by (simp add: nElements'_def)
  with h show "sint (address' (element' ! i)) \<noteq> sint (address' (element' ! j))"
    by (auto simp: address_tag'_def)
next
  fix i assume "i < nElements"
  then show "(is_switch (element ! i) \<and> uint (address (element ! i)) = 0) = (25 \<le> i \<and> i < 32)"
    using spare_iff[of i] by (simp add: nElements_eq is_spare_def)
next
  fix i assume "i < nElements'"
  then show "(is_switch' (element' ! i) \<and> sint (address' (element' ! i)) = 0) = (25 \<le> i \<and> i < 32)"
    using spare_iff'[of i] by (simp add: nElements'_eq is_spare'_def)
qed

lemma nth_el: "element ! 0 = entry TYPE_SWITCH MODULE_NWW 101 STRAIGHT 0"
  "element ! 1 = entry TYPE_SWITCH MODULE_NWW 102 STRAIGHT 0"
  "element ! 25 = entry TYPE_SWITCH NO_MODULE 0 0 0"
  "element ! 26 = entry TYPE_SWITCH NO_MODULE 0 0 0"
  "element ! 32 = entry TYPE_LOCO NO_MODULE 344 1 0"
  "element ! 49 = entry TYPE_POWER NO_MODULE FUNC_POWER POWERON 0"
  by (simp_all add: element_def)

theorem addresses_unique_unless_spare_witness:
  "uint (address (element ! 0)) \<noteq> uint (address (element ! 1))
   \<and> sint (address' (element' ! 0)) \<noteq> sint (address' (element' ! 1))
   \<and> is_switch (element ! 25) \<and> uint (address (element ! 25)) = 0
   \<and> is_switch' (element' ! 31) \<and> sint (address' (element' ! 31)) = 0"
proof -
  have a: "(0::nat) \<noteq> 1 \<and> sint (type (element ! 0)) = sint (type (element ! 1))
        \<and> uint (address (element ! 0)) \<noteq> 0"
    by (simp add: table_simps defines_simps)
  have b: "(0::nat) \<noteq> 1 \<and> sint (type' (element' ! 0)) = sint (type' (element' ! 1))
        \<and> sint (address' (element' ! 0)) \<noteq> 0"
    by (simp add: table_simps defines_simps)
  from addresses_unique_unless_spare a b show ?thesis
    by (simp add: nElements_eq nElements'_eq)
qed

text \<open>
  The claim as stated fails at the spare positions 25 and 26: two different Switch
  entries with the same address.
\<close>

theorem spare_addresses_shared:
  "25 < nElements \<and> 26 < nElements \<and> (25::nat) \<noteq> 26
   \<and> sint (type (element ! 25)) = sint (type (element ! 26))
   \<and> uint (address (element ! 25)) = uint (address (element ! 26))"
  by (simp add: nElements_eq) (simp add: table_simps defines_simps)

section \<open>The two headers' element arrays\<close>

text \<open>
  Claim C10, as amended. The element array of \<^verbatim>\<open>GAW_MR.h\<close> has 49 entries, that of
  \<^verbatim>\<open>GAW_MR_layout.h\<close> has 50. They agree on type, module and address in the first 40
  entries, and the (type, module, address) rows of \<^verbatim>\<open>GAW_MR.h\<close> are those of
  \<^verbatim>\<open>GAW_MR_layout.h\<close> without the entry at position 40 (\<^verbatim>\<open>FUNC_SHOW\<close>). They
  agree on \<^verbatim>\<open>state\<close> for the 32 Switches and the 5 Locomotives, and on \<^verbatim>\<open>state2\<close>
  for the 5 Locomotives. They differ on the Functions' placeholder states
  (\<^verbatim>\<open>UNUSED\<close> against 0) and on the Power entry (\<^verbatim>\<open>POWEROFF\<close>, \<^verbatim>\<open>UNUSED\<close>
  against \<^verbatim>\<open>POWERON\<close>, 0).
\<close>

theorem headers_tables_compared:
  "nElements' = 49 \<and> nElements = 50
   \<and> map kind_address' (take 40 element') = map kind_address (take 40 element)
   \<and> map kind_address' element' = map kind_address (take 40 element @ drop 41 element)
   \<and> kind_address (element ! 40) = (TYPE_FUNCTION, NO_MODULE, FUNC_SHOW)
   \<and> map get_state' (take 37 element') = map get_state (take 37 element)
   \<and> map get_state2' (take 5 (drop 32 element')) = map get_state2 (take 5 (drop 32 element))
   \<and> list_all (\<lambda>e. get_state' e = UNUSED \<and> get_state2' e = UNUSED) (take 11 (drop 37 element'))
   \<and> list_all (\<lambda>e. get_state e = 0 \<and> get_state2 e = 0) (take 12 (drop 37 element))
   \<and> get_state' (element' ! 48) = POWEROFF \<and> get_state2' (element' ! 48) = UNUSED
   \<and> get_state (element ! 49) = POWERON \<and> get_state2 (element ! 49) = 0"
  by (simp add: nElements_eq nElements'_eq)
     (simp add: table_simps kind_address_def kind_address'_def get_state_def get_state'_def
       get_state2_def get_state2'_def defines_simps)

text \<open>
  The claim as stated fails: the lengths differ, and so do the entry at position 40, the
  placeholder state of the Store function and the Power entry's \<^verbatim>\<open>state\<close>.
\<close>

theorem headers_tables_differ:
  "nElements' \<noteq> nElements
   \<and> kind_address' (element' ! 40) \<noteq> kind_address (element ! 40)
   \<and> get_state' (element' ! 37) \<noteq> get_state (element ! 37)
   \<and> get_state' (element' ! 48) \<noteq> get_state (element ! 49)"
  by (simp add: nElements_eq nElements'_eq)
     (simp add: table_simps kind_address_def kind_address'_def get_state_def get_state'_def
       get_state2_def get_state2'_def defines_simps)

section \<open>Directions in the state member\<close>

text \<open>
  Claim C9 at its failing input. In \<^verbatim>\<open>GAW_MR_layout.h\<close> the \<^verbatim>\<open>state\<close> member is a
  \<^verbatim>\<open>byte\<close>: \<^verbatim>\<open>REVERSE\<close> (-1) written to the state of the Locomotive at position 32
  reads back as 255, which is not \<^verbatim>\<open>REVERSE\<close>; \<^verbatim>\<open>STOP\<close> and \<^verbatim>\<open>FORWARD\<close> read
  back as written.
\<close>

theorem reverse_not_read_back:
  "sint (type (element ! 32)) = TYPE_LOCO
   \<and> get_state (set_state (element ! 32) REVERSE) = 255
   \<and> get_state (set_state (element ! 32) REVERSE) \<noteq> REVERSE
   \<and> get_state (set_state (element ! 32) STOP) = STOP
   \<and> get_state (set_state (element ! 32) FORWARD) = FORWARD"
  by (simp add: get_state_def set_state_def table_simps defines_simps
        unsigned_minus_1_eq_mask mask_eq_exp_minus_1)

text \<open>With the \<^verbatim>\<open>int\<close> member of \<^verbatim>\<open>GAW_MR.h\<close> all three directions read back.\<close>

lemma int_state_reads_back:
  "get_state' (set_state' e REVERSE) = REVERSE
   \<and> get_state' (set_state' e STOP) = STOP
   \<and> get_state' (set_state' e FORWARD) = FORWARD"
  by (simp add: get_state'_def set_state'_def defines_simps)

section \<open>The two states of a Switch\<close>

text \<open>
  Claim C3 at its failing input. In the element array of \<^verbatim>\<open>GAW_MR_layout.h\<close> the
  Switch with address 101 at position 0 starts with \<^verbatim>\<open>state\<close> and \<^verbatim>\<open>state2\<close> both
  \<^verbatim>\<open>STRAIGHT\<close>, and none of the 32 Switch entries starts with complementary states.
\<close>

theorem layout_switch_states_equal:
  "is_switch (element ! 0) \<and> uint (address (element ! 0)) = 101
   \<and> get_state (element ! 0) = STRAIGHT \<and> get_state2 (element ! 0) = STRAIGHT
   \<and> \<not> complementary (get_state (element ! 0)) (get_state2 (element ! 0))
   \<and> list_all (\<lambda>e. \<not> complementary (get_state e) (get_state2 e)) (take 32 element)"
  by (simp add: table_simps is_switch_def get_state_def get_state2_def complementary_def defines_simps)

text \<open>
  The element array of \<^verbatim>\<open>GAW_MR.h\<close> starts every Switch with complementary states,
  and a press on a Switch in use leaves them complementary.
\<close>

lemma main_header_switch_states_complementary:
  "list_all (\<lambda>e. complementary (get_state' e) (get_state2' e)) (take 32 element')"
  by (simp add: table_simps get_state'_def get_state2'_def complementary_def defines_simps)

lemma press_switch_complementary:
  assumes "i < length (table p)" and "uint (address (table p ! i)) \<noteq> 0"
    and "press_switch p i = (p', out)"
  shows "complementary (get_state (table p' ! i)) (get_state2 (table p' ! i))"
  using assms
  by (auto simp: press_switch_def Let_def get_state_def get_state2_def complementary_def defines_simps)

section \<open>The key map\<close>

lemma key_closed: "\<forall>r<ROWS. \<forall>c<COLS. keys ! r ! c = of_nat (r * COLS + c + 1)"
  by (simp add: ROWS_def COLS_def keys_def All_less_Suc numeral_nat less_Suc_eq)

lemma key_value:
  assumes "r < ROWS" and "c < COLS"
  shows "unat (keys ! r ! c) = r * COLS + c + 1"
proof -
  have k: "keys ! r ! c = of_nat (r * COLS + c + 1)"
    using key_closed assms by blast
  have "r * COLS + c + 1 < 2 ^ LENGTH(8)"
    using assms by (simp add: ROWS_def COLS_def)
  then have "unat (of_nat (r * COLS + c + 1) :: 8 word) = r * COLS + c + 1"
    by (rule of_nat_inverse[OF refl])
  with k show ?thesis by (simp only:)
qed

lemma grid_bij: "bij_betw (\<lambda>(r, c). r * 8 + c + 1) ({..<8} \<times> {..<8}) {1..64::nat}"
  by (rule bij_betw_byWitness[where f' = "\<lambda>k. ((k - 1) div 8, (k - 1) mod 8)"]) auto

lemma keys_bij:
  "bij_betw (\<lambda>(r, c). unat (keys ! r ! c)) ({..<ROWS} \<times> {..<COLS}) {1..64}"
proof -
  have eq: "(\<lambda>(r, c). unat (keys ! r ! c)) p = (\<lambda>(r, c). r * 8 + c + 1) p"
    if "p \<in> {..<ROWS} \<times> {..<COLS}" for p
  proof -
    from that obtain r c where p: "p = (r, c)" "r < ROWS" "c < COLS" by auto
    with key_value[of r c] show ?thesis by (simp only: COLS_def prod.case)
  qed
  have "bij_betw (\<lambda>(r, c). unat (keys ! r ! c)) ({..<8} \<times> {..<8}) {1..64::nat}"
    using grid_bij eq
    by (subst bij_betw_cong[where g = "\<lambda>(r, c). r * 8 + c + 1"])
       (simp_all only: ROWS_def COLS_def)
  then show ?thesis by (simp only: ROWS_def COLS_def)
qed

lemma element_index_key:
  assumes "r < ROWS" and "c < COLS" and "base \<le> 1"
  shows "element_index base n (keys ! r ! c) =
    (if r * COLS + c + 1 - base < n then Some (r * COLS + c + 1 - base) else None)"
  using assms by (simp add: element_index_def key_value)

text \<open>
  Claim C4, as amended. The key map is a bijection from the 64 coordinates of the 8x8
  matrix onto the values 1..64 (\<open>keys[r][c] = 8 * r + c + 1\<close>), and a coordinate outside
  the matrix has no key. No key maps to a sentinel. Read as a position of the element
  array, counted from 1 or from 0, a key value \<open>k\<close> denotes the position \<open>k - 1\<close> or \<open>k\<close>;
  it is a position of the table exactly when that position is below the table's length
  (50 entries in \<^verbatim>\<open>GAW_MR_layout.h\<close>, 49 in \<^verbatim>\<open>GAW_MR.h\<close>); the other key values,
  up to 64, are no position of the table.
\<close>

theorem key_map_bijective:
  "bij_betw (\<lambda>(r, c). unat (keys ! r ! c)) ({..<ROWS} \<times> {..<COLS}) {1..64}
   \<and> (\<forall>r<ROWS. \<forall>c<COLS. key_at r c = Some (of_nat (r * COLS + c + 1)))
   \<and> (\<forall>r c. \<not> (r < ROWS \<and> c < COLS) \<longrightarrow> key_at r c = None)
   \<and> nElements = 50 \<and> nElements' = 49
   \<and> (\<forall>r<ROWS. \<forall>c<COLS. \<forall>base\<le>1.
        element_index base nElements (keys ! r ! c) =
          (if r * COLS + c + 1 - base < 50 then Some (r * COLS + c + 1 - base) else None)
        \<and> element_index base nElements' (keys ! r ! c) =
          (if r * COLS + c + 1 - base < 49 then Some (r * COLS + c + 1 - base) else None))"
proof (intro conjI)
  show "bij_betw (\<lambda>(r, c). unat (keys ! r ! c)) ({..<ROWS} \<times> {..<COLS}) {1..64}"
    by (rule keys_bij)
  show "\<forall>r<ROWS. \<forall>c<COLS. key_at r c = Some (of_nat (r * COLS + c + 1))"
    using key_closed by (simp add: key_at_def)
  show "\<forall>r c. \<not> (r < ROWS \<and> c < COLS) \<longrightarrow> key_at r c = None"
    by (simp add: key_at_def)
  show "nElements = 50" by (rule nElements_eq)
  show "nElements' = 49" by (rule nElements'_eq)
  show "\<forall>r<ROWS. \<forall>c<COLS. \<forall>base\<le>1.
        element_index base nElements (keys ! r ! c) =
          (if r * COLS + c + 1 - base < 50 then Some (r * COLS + c + 1 - base) else None)
        \<and> element_index base nElements' (keys ! r ! c) =
          (if r * COLS + c + 1 - base < 49 then Some (r * COLS + c + 1 - base) else None)"
    by (simp only: nElements_eq nElements'_eq) (simp add: element_index_key)
qed

theorem key_map_bijective_witness:
  "key_at 7 7 = Some 64 \<and> key_at 8 0 = None
   \<and> element_index 1 nElements (keys ! 7 ! 7) = None
   \<and> element_index 0 nElements (keys ! 7 ! 7) = None
   \<and> element_index 1 nElements (keys ! 6 ! 1) = Some 49
   \<and> element_index 1 nElements' (keys ! 6 ! 1) = None"
proof -
  have "(7::nat) < ROWS" "(7::nat) < COLS" "(6::nat) < ROWS" "(1::nat) < COLS"
    "\<not> ((8::nat) < ROWS \<and> (0::nat) < COLS)"
    by (simp_all add: ROWS_def COLS_def)
  with key_map_bijective show ?thesis
    by (simp add: COLS_def)
qed

text \<open>
  The claim as stated fails at the key in row 7, column 7: its value 64 is no sentinel
  and lies beyond the end of both element arrays, whichever way positions are counted.
\<close>

theorem last_key_beyond_table:
  "key_at 7 7 = Some 64 \<and> nElements = 50 \<and> nElements' = 49
   \<and> element_index 1 nElements 64 = None \<and> element_index 0 nElements 64 = None
   \<and> element_index 1 nElements' 64 = None \<and> element_index 0 nElements' 64 = None"
  by (simp add: key_at_def keys_def ROWS_def COLS_def element_index_def nElements_eq nElements'_eq)

section \<open>LED addressing\<close>

lemma switch_rank_prefix:
  assumes "i \<le> 32"
  shows "switch_rank element i = i"
proof -
  have "set (take i element) \<subseteq> set (take 32 element)"
    using assms by (rule set_take_subset_set_take)
  with switch_rows have "\<forall>e\<in>set (take i element). is_switch e"
    by (auto simp: list_all_iff)
  then have "filter is_switch (take i element) = take i element"
    by (simp add: filter_id_conv)
  with assms show ?thesis
    by (simp add: switch_rank_def length_element)
qed

lemma pair_cases:
  assumes "p < 48"
  shows "led_pair p = 0 \<or> led_pair p = 1 \<or> led_pair p = 2"
proof -
  have "p div 16 < 3"
    using assms by (simp add: div_less_iff_less_mult)
  then show ?thesis
    unfolding led_pair_def by linarith
qed

lemma numberOfMx_eq: "numberOfMx = 7"
  by (simp add: numberOfMx_def mcps_def)

lemma chips_of_pair:
  assumes "p < 48"
  shows "thrown_chip p < numberOfMx \<and> straight_chip p < numberOfMx
    \<and> mcp_address (mcps ! thrown_chip p) = 0x20 + 2 * of_nat (p div 16)
    \<and> mcp_address (mcps ! straight_chip p) = 0x21 + 2 * of_nat (p div 16)
    \<and> even (unat (mcp_address (mcps ! thrown_chip p)))
    \<and> odd (unat (mcp_address (mcps ! straight_chip p)))
    \<and> mcp_address (mcps ! straight_chip p) = mcp_address (mcps ! thrown_chip p) + 1"
  using pair_cases[OF assms]
proof (elim disjE)
  assume "led_pair p = 0"
  moreover from this have "p div 16 = 0" by (simp add: led_pair_def)
  ultimately show ?thesis
    by (simp add: thrown_chip_def straight_chip_def numberOfMx_eq mcps_def)
next
  assume "led_pair p = 1"
  moreover from this have "p div 16 = 1" by (simp add: led_pair_def)
  ultimately show ?thesis
    by (simp add: thrown_chip_def straight_chip_def numberOfMx_eq mcps_def)
next
  assume "led_pair p = 2"
  moreover from this have "p div 16 = 2" by (simp add: led_pair_def)
  ultimately show ?thesis
    by (simp add: thrown_chip_def straight_chip_def numberOfMx_eq mcps_def)
qed

lemma led_write_lines:
  assumes "thrown_chip p < length bank" and "straight_chip p < length bank"
  shows "bit (led_write bank p st ! thrown_chip p) (led_bit p) = (st = THROWN)"
    and "bit (led_write bank p st ! straight_chip p) (led_bit p) = (st \<noteq> THROWN)"
proof -
  have ne: "thrown_chip p \<noteq> straight_chip p"
    by (simp add: thrown_chip_def straight_chip_def)
  have b: "led_bit p < 16" by (simp add: led_bit_def)
  show "bit (led_write bank p st ! thrown_chip p) (led_bit p) = (st = THROWN)"
    using assms ne b
    by (simp add: led_write_def drive_line_def bit_simps)
  show "bit (led_write bank p st ! straight_chip p) (led_bit p) = (st \<noteq> THROWN)"
    using assms ne b
    by (simp add: led_write_def drive_line_def bit_simps)
qed

text \<open>
  Claim C2. Every Switch of the element array has its position as ordinal rank, below 32.
  A rank \<open>p\<close> is mapped to pair \<open>p / 16\<close> and bit offset \<open>p % 16\<close>, below 16; the
  chips it drives are those of its pair: the Thrown chip is chip \<open>2 * (p / 16)\<close> of
  \<^verbatim>\<open>mcps[]\<close> and the Straight chip is chip \<open>2 * (p / 16) + 1\<close>. For every rank the
  seven chips of \<^verbatim>\<open>mcps[]\<close> serve (\<open>p < 48\<close>), both are chips of \<^verbatim>\<open>mcps[]\<close>, the
  Thrown chip has the even address \<open>0x20 + 2 * (p / 16)\<close> and the Straight chip the odd
  address \<open>0x21 + 2 * (p / 16)\<close> that follows it, and after a write the line \<open>p % 16\<close>
  of the Thrown chip is on exactly for \<^verbatim>\<open>THROWN\<close> and that of the Straight chip
  exactly otherwise. Ranks 0 and 15 are in pair 0; rank 16 is in pair 1 with bit 0.
\<close>

theorem led_addressing:
  "(\<forall>i<nElements. is_switch (element ! i) \<longrightarrow> switch_rank element i = i \<and> i < 32)
   \<and> (\<forall>p. led_pair p = p div 16 \<and> led_bit p = p mod 16 \<and> led_bit p < 16
        \<and> thrown_chip p = 2 * led_pair p \<and> straight_chip p = 2 * led_pair p + 1
        \<and> thrown_chip p = 2 * (p div 16) \<and> straight_chip p = 2 * (p div 16) + 1)
   \<and> (\<forall>p<48. thrown_chip p < numberOfMx \<and> straight_chip p < numberOfMx
        \<and> mcp_address (mcps ! thrown_chip p) = 0x20 + 2 * of_nat (p div 16)
        \<and> mcp_address (mcps ! straight_chip p) = 0x21 + 2 * of_nat (p div 16)
        \<and> even (unat (mcp_address (mcps ! thrown_chip p)))
        \<and> odd (unat (mcp_address (mcps ! straight_chip p)))
        \<and> mcp_address (mcps ! straight_chip p) = mcp_address (mcps ! thrown_chip p) + 1)
   \<and> (\<forall>p<48. \<forall>bank st. length bank = numberOfMx \<longrightarrow>
        bit (led_write bank p st ! (2 * (p div 16))) (p mod 16) = (st = THROWN)
        \<and> bit (led_write bank p st ! (2 * (p div 16) + 1)) (p mod 16) = (st \<noteq> THROWN))
   \<and> led_pair 0 = 0 \<and> led_bit 0 = 0 \<and> thrown_chip 0 = 0 \<and> straight_chip 0 = 1
   \<and> led_pair 15 = 0 \<and> led_bit 15 = 15 \<and> thrown_chip 15 = 0 \<and> straight_chip 15 = 1
   \<and> led_pair 16 = 1 \<and> led_bit 16 = 0 \<and> thrown_chip 16 = 2 \<and> straight_chip 16 = 3"
proof (intro conjI)
  show "\<forall>i<nElements. is_switch (element ! i) \<longrightarrow> switch_rank element i = i \<and> i < 32"
    using switch_iff switch_rank_prefix by (simp add: nElements_def)
  show "\<forall>p. led_pair p = p div 16 \<and> led_bit p = p mod 16 \<and> led_bit p < 16
        \<and> thrown_chip p = 2 * led_pair p \<and> straight_chip p = 2 * led_pair p + 1
        \<and> thrown_chip p = 2 * (p div 16) \<and> straight_chip p = 2 * (p div 16) + 1"
    by (simp add: led_pair_def led_bit_def thrown_chip_def straight_chip_def)
  show "\<forall>p<48. thrown_chip p < numberOfMx \<and> straight_chip p < numberOfMx
        \<and> mcp_address (mcps ! thrown_chip p) = 0x20 + 2 * of_nat (p div 16)
        \<and> mcp_address (mcps ! straight_chip p) = 0x21 + 2 * of_nat (p div 16)
        \<and> even (unat (mcp_address (mcps ! thrown_chip p)))
        \<and> odd (unat (mcp_address (mcps ! straight_chip p)))
        \<and> mcp_address (mcps ! straight_chip p) = mcp_address (mcps ! thrown_chip p) + 1"
    using chips_of_pair by blast
  show "\<forall>p<48. \<forall>bank st. length bank = numberOfMx \<longrightarrow>
        bit (led_write bank p st ! (2 * (p div 16))) (p mod 16) = (st = THROWN)
        \<and> bit (led_write bank p st ! (2 * (p div 16) + 1)) (p mod 16) = (st \<noteq> THROWN)"
  proof (intro allI impI)
    fix p :: nat and bank :: "16 word list" and st :: int
    assume "p < 48" and "length bank = numberOfMx"
    with chips_of_pair[of p]
    have "thrown_chip p < length bank" and "straight_chip p < length bank"
      by simp_all
    from led_write_lines[OF this, of st]
    show "bit (led_write bank p st ! (2 * (p div 16))) (p mod 16) = (st = THROWN)
        \<and> bit (led_write bank p st ! (2 * (p div 16) + 1)) (p mod 16) = (st \<noteq> THROWN)"
      by (simp add: thrown_chip_def straight_chip_def led_pair_def led_bit_def)
  qed
qed (simp_all add: led_pair_def led_bit_def thrown_chip_def straight_chip_def)

theorem led_addressing_witness:
  "switch_rank element 0 = 0 \<and> switch_rank element 16 = 16
   \<and> thrown_chip 0 = 0 \<and> straight_chip 0 = 1
   \<and> mcp_address (mcps ! 0) = 0x20 \<and> mcp_address (mcps ! 1) = 0x21
   \<and> thrown_chip 16 = 2 \<and> straight_chip 16 = 3
   \<and> mcp_address (mcps ! 2) = 0x22 \<and> mcp_address (mcps ! 3) = 0x23
   \<and> bit (led_write (replicate numberOfMx 0) 0 THROWN ! 0) 0
   \<and> \<not> bit (led_write (replicate numberOfMx 0) 0 THROWN ! 1) 0
   \<and> bit (led_write (replicate numberOfMx 0) 16 THROWN ! 2) 0
   \<and> \<not> bit (led_write (replicate numberOfMx 0) 16 THROWN ! 3) 0"
proof -
  have a: "(0::nat) < nElements" "is_switch (element ! 0)" "(0::nat) < 48"
    "(16::nat) < nElements" "is_switch (element ! 16)" "(16::nat) < 48"
    "length (replicate numberOfMx (0::16 word)) = numberOfMx"
    by (simp_all add: nElements_eq table_simps is_switch_def defines_simps)
  note ranks = led_addressing[THEN conjunct1, rule_format]
  note maps = led_addressing[THEN conjunct2, THEN conjunct1, rule_format]
  note chips = led_addressing[THEN conjunct2, THEN conjunct2, THEN conjunct1, rule_format]
  note writes = led_addressing[THEN conjunct2, THEN conjunct2, THEN conjunct2, THEN conjunct1,
      rule_format]
  have r: "switch_rank element 0 = 0" "switch_rank element 16 = 16"
    using ranks[of 0] ranks[of 16] a by simp_all
  have c0: "thrown_chip 0 = 0" "straight_chip 0 = 1"
    using maps[of 0] by simp_all
  have c16: "thrown_chip 16 = 2" "straight_chip 16 = 3"
    using maps[of 16] by simp_all
  have m0: "mcp_address (mcps ! 0) = 0x20" "mcp_address (mcps ! 1) = 0x21"
    using chips[of 0] c0 by simp_all
  have m16: "mcp_address (mcps ! 2) = 0x22" "mcp_address (mcps ! 3) = 0x23"
    using chips[of 16] c16 by simp_all
  have w0: "bit (led_write (replicate numberOfMx 0) 0 THROWN ! 0) 0"
    "\<not> bit (led_write (replicate numberOfMx 0) 0 THROWN ! 1) 0"
    using writes[of 0 "replicate numberOfMx 0" THROWN] a by simp_all
  have w16: "bit (led_write (replicate numberOfMx 0) 16 THROWN ! 2) 0"
    "\<not> bit (led_write (replicate numberOfMx 0) 16 THROWN ! 3) 0"
    using writes[of 16 "replicate numberOfMx 0" THROWN] a by simp_all
  from r c0 c16 m0 m16 w0 w16 show ?thesis by (intro conjI)
qed

section \<open>Save and load\<close>

lemma int16_bytes:
  "push_bit 8 (ucast (ucast (drop_bit 8 w) :: 8 word)) OR ucast (ucast w :: 8 word) = w"
  for w :: "16 word"
  by (rule bit_word_eqI) (auto simp: bit_simps)

lemma decode_save: "decode (save tbl) = map (\<lambda>e. (state e, state2 e)) tbl"
  by (induction tbl) (simp_all add: save_def entry_bytes_def int16_bytes)

lemma length_save: "length (save tbl) = 3 * length tbl"
  by (induction tbl) (simp_all add: save_def entry_bytes_def)

lemma implied_count_save: "implied_count (save tbl) = length tbl"
  by (simp add: implied_count_def length_save)

lemma restore_states:
  assumes "length live = length tbl"
  shows "map state (restore (map (\<lambda>e. (state e, state2 e)) tbl) live) = map state tbl"
    and "map state2 (restore (map (\<lambda>e. (state e, state2 e)) tbl) live) = map state2 tbl"
    and "map type (restore (map (\<lambda>e. (state e, state2 e)) tbl) live) = map type live"
    and "map module (restore (map (\<lambda>e. (state e, state2 e)) tbl) live) = map module live"
    and "map address (restore (map (\<lambda>e. (state e, state2 e)) tbl) live) = map address live"
  using assms
  by (induction live tbl rule: list_induct2) (simp_all add: restore_def)

lemma restore_self: "restore (map (\<lambda>e. (state e, state2 e)) tbl) tbl = tbl"
  by (induction tbl) (simp_all add: restore_def)

text \<open>
  Claim C6. For every table, loading what \<open>save\<close> wrote gives back the table's
  \<^verbatim>\<open>state\<close>/\<^verbatim>\<open>state2\<close> sequence, and \<open>recall\<close> onto the same table leaves it as it
  was; onto any live table of the same length, \<open>recall\<close> succeeds with the saved states
  and the live table's type, module and address. If the element count a region implies
  is not the live table's length, \<open>load\<close> fails with \<open>SizeMismatch\<close> and \<open>recall\<close>
  returns the live table unchanged together with that error.
\<close>

theorem save_load_round_trip:
  "(\<forall>tbl. load (save tbl) (length tbl) = Inr (map (\<lambda>e. (state e, state2 e)) tbl)
         \<and> recall (save tbl) tbl = (tbl, None))
   \<and> (\<forall>tbl live. length live = length tbl \<longrightarrow>
         (\<exists>new. recall (save tbl) live = (new, None)
            \<and> map state new = map state tbl \<and> map state2 new = map state2 tbl
            \<and> map type new = map type live \<and> map module new = map module live
            \<and> map address new = map address live))
   \<and> (\<forall>region live. implied_count region \<noteq> length live \<longrightarrow>
         load region (length live) = Inl SizeMismatch
         \<and> recall region live = (live, Some SizeMismatch))"
proof (intro conjI allI impI)
  fix tbl
  show "load (save tbl) (length tbl) = Inr (map (\<lambda>e. (state e, state2 e)) tbl)"
    by (simp add: load_def implied_count_save decode_save)
  then show "recall (save tbl) tbl = (tbl, None)"
    by (simp add: recall_def restore_self)
next
  fix tbl live :: "MR_data list"
  assume len: "length live = length tbl"
  have "recall (save tbl) live = (restore (map (\<lambda>e. (state e, state2 e)) tbl) live, None)"
    using len by (simp add: recall_def load_def implied_count_save decode_save)
  with restore_states[OF len]
  show "\<exists>new. recall (save tbl) live = (new, None)
            \<and> map state new = map state tbl \<and> map state2 new = map state2 tbl
            \<and> map type new = map type live \<and> map module new = map module live
            \<and> map address new = map address live"
    by simp
next
  fix region :: "8 word list" and live :: "MR_data list"
  assume "implied_count region \<noteq> length live"
  then show "load region (length live) = Inl SizeMismatch"
    and "recall region live = (live, Some SizeMismatch)"
    by (simp_all add: recall_def load_def)
qed

theorem save_load_round_trip_witness:
  "length element = length (element[0 := set_state (element ! 0) THROWN])
   \<and> (\<exists>new. recall (save (element[0 := set_state (element ! 0) THROWN])) element = (new, None)
        \<and> map state new = map state (element[0 := set_state (element ! 0) THROWN])
        \<and> map state2 new = map state2 (element[0 := set_state (element ! 0) THROWN])
        \<and> map address new = map address element)
   \<and> implied_count (save (take 49 element)) \<noteq> length element
   \<and> recall (save (take 49 element)) element = (element, Some SizeMismatch)"
proof -
  let ?t = "element[0 := set_state (element ! 0) THROWN]"
  have len: "length element = length ?t" by simp
  have ne: "implied_count (save (take 49 element)) \<noteq> length element"
    by (simp add: implied_count_save length_element)
  from save_load_round_trip[THEN conjunct2, THEN conjunct1, rule_format, OF len]
  have a: "\<exists>new. recall (save ?t) element = (new, None)
        \<and> map state new = map state ?t \<and> map state2 new = map state2 ?t
        \<and> map address new = map address element"
    by blast
  from save_load_round_trip[THEN conjunct2, THEN conjunct2, rule_format, OF ne]
  have b: "recall (save (take 49 element)) element = (element, Some SizeMismatch)"
    by simp
  from len a ne b show ?thesis by (intro conjI)
qed

section \<open>Presses without a selected locomotive\<close>

lemma selected_none: "activeLoc p = 0 \<Longrightarrow> selected p = None"
  by (simp add: selected_def)

lemma press_function_none:
  assumes "activeLoc p = 0" and "locomotive_scoped f"
  shows "press_function p f = (p, [], Some NoLocomotiveSelected)"
  using assms
  by (auto simp: locomotive_scoped_def press_function_def direction_function_def
        trigger_function_def selected_none)

text \<open>
  Claim C7. \<^verbatim>\<open>activeLoc\<close> starts at 0, "none selected". In a panel state with no
  locomotive selected, each locomotive-scoped function (forward, stop, reverse, lights,
  sound, whistle, horn, two-tone horn) and a speed change report
  \<open>NoLocomotiveSelected\<close>, emit no bus command and leave the state, the Element Table
  included, as it was; so does a press on a table entry that is such a Function.
\<close>

theorem no_locomotive_selected:
  "activeLoc_init = 0 \<and> activeLoc panel_init = 0
   \<and> (\<forall>p. activeLoc p = 0 \<longrightarrow>
        (\<forall>f. locomotive_scoped f \<longrightarrow> press_function p f = (p, [], Some NoLocomotiveSelected))
        \<and> (\<forall>m level. speed_input m p level = (p, [], Some NoLocomotiveSelected))
        \<and> (\<forall>i<length (table p).
              sint (type (table p ! i)) = TYPE_FUNCTION
              \<and> locomotive_scoped (uint (address (table p ! i)))
              \<longrightarrow> apply_press p i = (p, [], Some NoLocomotiveSelected)))"
proof (intro conjI allI impI)
  show "activeLoc_init = 0" by (simp add: activeLoc_init_def)
  show "activeLoc panel_init = 0" by (simp add: panel_init_def activeLoc_init_def)
next
  fix p :: panel and f
  assume "activeLoc p = 0" and "locomotive_scoped f"
  then show "press_function p f = (p, [], Some NoLocomotiveSelected)"
    by (rule press_function_none)
next
  fix p :: panel and m level
  assume "activeLoc p = 0"
  then show "speed_input m p level = (p, [], Some NoLocomotiveSelected)"
    by (simp add: speed_input_def selected_none)
next
  fix p :: panel and i
  assume a: "activeLoc p = 0" and i: "i < length (table p)"
    and f: "sint (type (table p ! i)) = TYPE_FUNCTION
              \<and> locomotive_scoped (uint (address (table p ! i)))"
  from i f have "apply_press p i = press_function p (uint (address (table p ! i)))"
    by (simp add: apply_press_def Let_def defines_simps)
  with a f show "apply_press p i = (p, [], Some NoLocomotiveSelected)"
    by (simp add: press_function_none)
qed

lemma nth_element_41: "element ! 41 = entry TYPE_FUNCTION NO_MODULE FUNC_FORWARD 0 0"
  by (simp add: element_def)

lemma nth_element_25: "element ! 25 = entry TYPE_SWITCH NO_MODULE 0 0 0"
  by (simp add: element_def)

lemma nth_element_26: "element ! 26 = entry TYPE_SWITCH NO_MODULE 0 0 0"
  by (simp add: element_def)

theorem no_locomotive_selected_witness:
  "activeLoc panel_init = 0
   \<and> sint (type (table panel_init ! 41)) = TYPE_FUNCTION
   \<and> uint (address (table panel_init ! 41)) = FUNC_FORWARD
   \<and> locomotive_scoped FUNC_FORWARD
   \<and> apply_press panel_init 41 = (panel_init, [], Some NoLocomotiveSelected)
   \<and> press_function panel_init FUNC_HORN = (panel_init, [], Some NoLocomotiveSelected)"
proof -
  have a: "activeLoc panel_init = 0"
    by (simp add: panel_init_def activeLoc_init_def)
  have i: "41 < length (table panel_init)"
    by (simp add: panel_init_def length_element)
  have t: "sint (type (table panel_init ! 41)) = TYPE_FUNCTION"
    "uint (address (table panel_init ! 41)) = FUNC_FORWARD"
    by (simp_all add: panel_init_def nth_element_41 entry_def defines_simps)
  have l: "locomotive_scoped FUNC_FORWARD" "locomotive_scoped FUNC_HORN"
    by (simp_all add: locomotive_scoped_def)
  note n = no_locomotive_selected[THEN conjunct2, THEN conjunct2, rule_format, OF a]
  from n[THEN conjunct1, rule_format, OF l(2)]
  have h: "press_function panel_init FUNC_HORN = (panel_init, [], Some NoLocomotiveSelected)" .
  from n[THEN conjunct2, THEN conjunct2, rule_format, OF i] t l(1)
  have "apply_press panel_init 41 = (panel_init, [], Some NoLocomotiveSelected)"
    by simp
  with a t l h show ?thesis by simp
qed

section \<open>Spare Switch positions and the key map\<close>

lemma apply_press_spare:
  assumes "i < length (table p)" and "is_spare (table p ! i)"
  shows "apply_press p i = (p, [], Some ReservedSlot)"
  using assms
  by (simp add: apply_press_def press_switch_def is_spare_def is_switch_def Let_def)

lemma spare_at_key:
  assumes "r < ROWS" and "c < COLS" and "base \<le> 1"
  shows "(\<exists>i. element_index base nElements (keys ! r ! c) = Some i \<and> is_spare (element ! i))
    = (25 \<le> r * COLS + c + 1 - base \<and> r * COLS + c + 1 - base < 32)"
  using assms spare_iff[of "r * COLS + c + 1 - base"]
  by (auto simp: element_index_key nElements_eq)

lemma spare_at_key':
  assumes "r < ROWS" and "c < COLS" and "base \<le> 1"
  shows "(\<exists>i. element_index base nElements' (keys ! r ! c) = Some i \<and> is_spare' (element' ! i))
    = (25 \<le> r * COLS + c + 1 - base \<and> r * COLS + c + 1 - base < 32)"
  using assms spare_iff'[of "r * COLS + c + 1 - base"]
  by (auto simp: element_index_key nElements'_eq)

text \<open>
  Claim C5, as amended. The spare Switch positions are reachable from the key map: with
  positions counted from 1 (or from 0), the key at row \<open>r\<close>, column \<open>c\<close> addresses a
  spare position exactly when \<open>8 * r + c\<close> (or \<open>8 * r + c + 1\<close>) is one of 25..31, in
  both element arrays. A press applied to a spare position leaves the state as it was,
  emits no bus command and reports \<open>ReservedSlot\<close>.
\<close>

theorem spare_positions_reachable:
  "(\<forall>r<ROWS. \<forall>c<COLS. \<forall>base\<le>1.
      (\<exists>i. element_index base nElements (keys ! r ! c) = Some i \<and> is_spare (element ! i))
        = (25 \<le> r * COLS + c + 1 - base \<and> r * COLS + c + 1 - base < 32))
   \<and> (\<forall>r<ROWS. \<forall>c<COLS. \<forall>base\<le>1.
      (\<exists>i. element_index base nElements' (keys ! r ! c) = Some i \<and> is_spare' (element' ! i))
        = (25 \<le> r * COLS + c + 1 - base \<and> r * COLS + c + 1 - base < 32))
   \<and> (\<forall>p. \<forall>i<length (table p). is_spare (table p ! i)
        \<longrightarrow> apply_press p i = (p, [], Some ReservedSlot))"
  using spare_at_key spare_at_key' apply_press_spare by blast

theorem spare_positions_reachable_witness:
  "key_at 3 1 = Some 26
   \<and> (\<exists>i. element_index 1 nElements (keys ! 3 ! 1) = Some i \<and> is_spare (element ! i))
   \<and> is_spare (table panel_init ! 25)
   \<and> apply_press panel_init 25 = (panel_init, [], Some ReservedSlot)"
proof -
  have k: "key_at 3 1 = Some 26"
    by (simp add: key_at_def keys_def ROWS_def COLS_def)
  have rc: "(3::nat) < ROWS" "(1::nat) < COLS" "(1::nat) \<le> 1"
    by (simp_all add: ROWS_def COLS_def)
  have s: "is_spare (table panel_init ! 25)"
    by (simp add: panel_init_def nth_element_25 entry_def is_spare_def is_switch_def defines_simps)
  have i: "25 < length (table panel_init)"
    by (simp add: panel_init_def length_element)
  from spare_positions_reachable[THEN conjunct1, rule_format, OF rc]
  have e: "\<exists>i. element_index 1 nElements (keys ! 3 ! 1) = Some i \<and> is_spare (element ! i)"
    by (simp add: COLS_def)
  from spare_positions_reachable[THEN conjunct2, THEN conjunct2, rule_format, OF i s]
  have "apply_press panel_init 25 = (panel_init, [], Some ReservedSlot)" .
  with k e s show ?thesis by simp
qed

text \<open>
  The claim as stated fails at the key in row 3, column 1: its value 26 addresses a
  spare position whichever way positions are counted.
\<close>

theorem spare_position_on_key:
  "key_at 3 1 = Some 26
   \<and> element_index 1 nElements 26 = Some 25 \<and> is_spare (element ! 25)
   \<and> element_index 0 nElements 26 = Some 26 \<and> is_spare (element ! 26)"
  by (simp add: key_at_def keys_def ROWS_def COLS_def element_index_def nElements_eq
        nth_element_25 nth_element_26 entry_def is_spare_def is_switch_def defines_simps)

end
